theory Spec2Isabelle
  imports Main "HOL-Library.Word"
begin

section \<open>Row materialisation of \<open>lib/rome/core/rows/rows.py\<close>\<close>

text \<open>
  A shallow embedding of \<open>rows.py\<close>: the helpers \<open>has_attribute\<close>, \<open>get_attribute\<close>,
  \<open>find_table_name\<close>, \<open>extract_models\<close>, \<open>extract_sub_row\<close>, \<open>wrap_with_lazy_value\<close> and
  the pipeline \<open>construct_rows\<close>.  Every exception the Python can raise inside these
  functions is a value \<open>Inl e\<close>; a normal return is \<open>Inr v\<close>.  The functions of the
  file that \<open>construct_rows\<close> does not call (\<open>set_attribute\<close>, \<open>intersect\<close>,
  \<open>flatten\<close>, \<open>extract_table_data\<close> and the two \<open>extract_joining_criterion\<close>
  functions) are not part of the embedding.
\<close>

subsection \<open>Exceptions\<close>

text \<open>
  \<open>AttributeError\<close>, \<open>KeyError\<close> and \<open>IndexError\<close> are raised by the code of \<open>rows.py\<close>
  itself (attribute access, subscription, \<open>selectables[0]\<close>).  \<open>Raised msg\<close> is any
  exception raised by a collaborator that is not part of the file: the object store, the
  tuple builder, the decoder, or the callable of a function selectable.
\<close>

datatype error = AttributeError | KeyError | IndexError | Raised string

subsection \<open>Python values\<close>

text \<open>
  The values that flow through rows.  \<open>PInt\<close> is a Python 2 \<open>int\<close> and \<open>PLong\<close> a
  \<open>long\<close>; \<open>PStr\<close> is a byte string and \<open>PUnicode\<close> a unicode string; a float is its
  64 bits.  \<open>PDict\<close> is an object whose type is exactly \<open>dict\<close>, with string keys, as an
  association list whose first binding of a key counts.  \<open>PObj tn attrs\<close> is an instance
  of a class named \<open>tn\<close> with the instance attributes \<open>attrs\<close>.  \<open>PKeyedTuple vals labels\<close>
  is sqlalchemy's \<open>KeyedTuple(vals, labels=labels)\<close>.  \<open>PLazy v u\<close> is
  \<open>LazyValue(v, u)\<close>, the deferred handle of \<open>lib.rome.core.lazy\<close>.
\<close>

datatype pyval =
    PNone
  | PBool bool
  | PInt int
  | PLong int
  | PFloat "64 word"
  | PStr string
  | PUnicode string
  | PList "pyval list"
  | PDict "(string \<times> pyval) list"
  | PObj string "(string \<times> pyval) list"
  | PKeyedTuple "pyval list" "string list"
  | PLazy pyval pyval

text \<open>\<open>type(value).__name__\<close>.\<close>

fun type_name :: "pyval \<Rightarrow> string" where
  "type_name PNone = ''NoneType''"
| "type_name (PBool b) = ''bool''"
| "type_name (PInt i) = ''int''"
| "type_name (PLong i) = ''long''"
| "type_name (PFloat w) = ''float''"
| "type_name (PStr s) = ''str''"
| "type_name (PUnicode s) = ''unicode''"
| "type_name (PList xs) = ''list''"
| "type_name (PDict d) = ''dict''"
| "type_name (PObj tn attrs) = tn"
| "type_name (PKeyedTuple vals labels) = ''KeyedTuple''"
| "type_name (PLazy v u) = ''LazyValue''"

text \<open>
  The attributes of a value that \<open>hasattr\<close> and \<open>getattr\<close> see: the instance attributes
  of a \<open>PObj\<close>, and for a \<open>KeyedTuple\<close> the entries of
  \<open>__dict__.update(zip(labels, vals))\<close>, where a later pair overrides an earlier one with
  the same label.  The methods that Python's built-in types carry (\<open>str.upper\<close>,
  \<open>tuple.count\<close>, ...) are not attributes of the model.
\<close>

fun instance_attributes :: "pyval \<Rightarrow> (string \<times> pyval) list" where
  "instance_attributes (PObj tn attrs) = attrs"
| "instance_attributes (PKeyedTuple vals labels) = rev (zip labels vals)"
| "instance_attributes v = []"

definition hasattr :: "pyval \<Rightarrow> string \<Rightarrow> bool" where
  "hasattr obj key = (map_of (instance_attributes obj) key \<noteq> None)"

definition getattr :: "pyval \<Rightarrow> string \<Rightarrow> pyval \<Rightarrow> pyval" where
  "getattr obj key dflt =
     (case map_of (instance_attributes obj) key of Some v \<Rightarrow> v | None \<Rightarrow> dflt)"

subsection \<open>\<open>has_attribute\<close> and \<open>get_attribute\<close> (lines 40 to 58)\<close>

fun has_attribute :: "pyval \<Rightarrow> string \<Rightarrow> bool" where
  "has_attribute (PDict d) key = (map_of d key \<noteq> None)"
| "has_attribute obj key = hasattr obj key"

fun get_attribute :: "pyval \<Rightarrow> string \<Rightarrow> pyval \<Rightarrow> pyval" where
  "get_attribute (PDict d) key dflt =
     (case map_of d key of Some v \<Rightarrow> v | None \<Rightarrow> dflt)"
| "get_attribute obj key dflt = getattr obj key dflt"

subsection \<open>Entities, selectables and hints\<close>

text \<open>
  An entity is what a selectable refers to as \<open>_model\<close>: a mapped class, an alias, or a
  composite.  It is a hashable object (it is stored in a Python \<open>set\<close>), so it is never a
  \<open>dict\<close>, and \<open>has_attribute\<close> on it is \<open>hasattr\<close>.  Each attribute that \<open>rows.py\<close>
  reads is a field that is \<open>None\<close> when the object does not have the attribute:
  \<open>__tablename__\<close>, \<open>table\<close> (a descriptor whose \<open>name\<close> may be missing), \<open>class_\<close> (field \<open>klass\<close>: a
  mapped class whose \<open>__tablename__\<close> and \<open>_sa_class_manager\<close> may be missing),
  \<open>clauses\<close>, \<open>_secondary_indexes\<close> and \<open>_sa_class_manager\<close> (field name to the text of
  the mapped column, \<open>manager[field].__str__()\<close>).  \<open>ident\<close> is the identity of the
  object: two entity values are the same Python object exactly when they are equal.
\<close>

datatype table_descr = TableDescr (td_name: "string option")

datatype mapped_class =
  MappedClass (mc_tablename: "string option") (mc_sa_class_manager: "(string \<times> string) list option")

datatype entity =
  Entity
    (ident: nat)
    (tablename: "string option")
    (table: "table_descr option")
    (klass: "mapped_class option")
    (clauses: "entity list option")
    (secondary_indexes: "string list option")
    (sa_class_manager: "(string \<times> string) list option")

record selectable =
  sel_model :: entity
  sel_attributes :: string
  sel_is_function :: bool
  is_hidden :: bool
  sel_function :: "pyval list \<Rightarrow> error + pyval"

record hint =
  table_name :: string
  attribute :: string
  hint_value :: pyval

subsection \<open>\<open>find_table_name\<close> (lines 61 to 76)\<close>

text \<open>
  The four tests of the source, in its order.  \<open>model.table.name\<close> and
  \<open>model.class_.__tablename__\<close> raise \<open>AttributeError\<close> when the inner attribute is
  missing.  The loop over \<open>model.clauses\<close> returns in its first iteration, so it yields
  the result for the first clause, or falls through to \<open>"none"\<close> when there is no clause.
\<close>

fun find_table_name :: "entity \<Rightarrow> error + string" where
  "find_table_name (Entity i tn tb cl cs si sm) =
     (case tn of Some name \<Rightarrow> Inr name
      | None \<Rightarrow>
     (case tb of Some t \<Rightarrow> (case td_name t of Some name \<Rightarrow> Inr name | None \<Rightarrow> Inl AttributeError)
      | None \<Rightarrow>
     (case cl of Some c \<Rightarrow> (case mc_tablename c of Some name \<Rightarrow> Inr name | None \<Rightarrow> Inl AttributeError)
      | None \<Rightarrow>
     (case cs of Some (clause # rest) \<Rightarrow> find_table_name clause
      | Some [] \<Rightarrow> Inr ''none''
      | None \<Rightarrow> Inr ''none''))))"

subsection \<open>Collaborators\<close>

text \<open>
  What \<open>rows.py\<close> imports and calls: \<open>get_objects\<close> (the object store; its arguments are
  the table name, the request uuid, \<open>skip_loading\<close> and the reduced hints),
  \<open>building_tuples\<close> (the tuple builder \<open>sql_panda_building_tuples\<close>; its arguments are the
  loaded collections, the labels, the criterions, the hints and \<open>order_by\<close>),
  \<open>is_novabase\<close>, \<open>get_decoder\<close> (which gives the decoder's \<open>desimplify\<close> for a request
  uuid) and \<open>uuid.uuid1()\<close>.  Each may raise.  Timing and logging have no effect on the
  returned rows and are left out.
\<close>

record env =
  get_objects :: "string \<Rightarrow> pyval \<Rightarrow> bool \<Rightarrow> (string \<times> pyval) list \<Rightarrow> error + pyval"
  building_tuples :: "pyval list \<Rightarrow> string list \<Rightarrow> pyval \<Rightarrow> hint list \<Rightarrow> pyval \<Rightarrow> error + pyval list list"
  is_novabase :: "pyval \<Rightarrow> bool"
  get_decoder :: "pyval \<Rightarrow> error + (pyval \<Rightarrow> error + pyval)"
  uuid1 :: pyval

subsection \<open>\<open>wrap_with_lazy_value\<close> (lines 145 to 154)\<close>

text \<open>\<open>type(value) is dict\<close>, and \<open>key in value\<close> for such a value.\<close>

fun is_dict :: "pyval \<Rightarrow> bool" where
  "is_dict (PDict d) = True"
| "is_dict v = False"

fun dict_contains :: "pyval \<Rightarrow> string \<Rightarrow> bool" where
  "dict_contains (PDict d) key = (map_of d key \<noteq> None)"
| "dict_contains v key = False"

definition wrap_with_lazy_value :: "env \<Rightarrow> pyval \<Rightarrow> bool \<Rightarrow> pyval \<Rightarrow> error + pyval" where
  "wrap_with_lazy_value e val only_if_necessary request_uuid =
     (if val = PNone then Inr PNone
      else if only_if_necessary \<and> type_name val \<in> set [''int'', ''str'', ''float'', ''unicode'']
        then Inr val
      else if is_dict val \<and> dict_contains val ''timezone''
        then (case get_decoder e request_uuid of
                Inl err \<Rightarrow> Inl err
              | Inr desimplify \<Rightarrow> desimplify val)
      else Inr (PLazy val request_uuid))"

subsection \<open>The branch tests (lines 32 to 37)\<close>

definition all_selectables_are_functions :: "selectable list \<Rightarrow> bool" where
  "all_selectables_are_functions models =
     list_all sel_is_function (filter (\<lambda>y. \<not> is_hidden y) models)"

definition any_selectable_is_function :: "selectable list \<Rightarrow> bool" where
  "any_selectable_is_function models =
     list_ex sel_is_function (filter (\<lambda>y. \<not> is_hidden y) models)"

subsection \<open>\<open>extract_models\<close> (lines 79 to 86)\<close>

text \<open>
  The loop over the selectables that are not functions, with its two variables: the set
  \<open>already_processed\<close> of the entities seen and the list \<open>result\<close>.
\<close>

fun extract_models_loop ::
  "selectable list \<Rightarrow> entity set \<Rightarrow> selectable list \<Rightarrow> selectable list" where
  "extract_models_loop [] already_processed result = result"
| "extract_models_loop (selectable # rest) already_processed result =
     (if sel_model selectable \<notin> already_processed
      then extract_models_loop rest
             (insert (sel_model selectable) already_processed) (result @ [selectable])
      else extract_models_loop rest already_processed result)"

definition extract_models :: "selectable list \<Rightarrow> selectable list" where
  "extract_models l = extract_models_loop (filter (\<lambda>x. \<not> sel_is_function x) l) {} []"

subsection \<open>\<open>extract_sub_row\<close> (lines 89 to 103)\<close>

text \<open>\<open>selectables[0]\<close> raises \<open>IndexError\<close> on the empty list.\<close>

definition extract_sub_row :: "pyval \<Rightarrow> selectable list \<Rightarrow> string list \<Rightarrow> error + pyval" where
  "extract_sub_row row selectables labels =
     (if length selectables > 1
      then Inr (PKeyedTuple (map (\<lambda>label. get_attribute row label PNone) labels) labels)
      else (case selectables of
              [] \<Rightarrow> Inl IndexError
            | s # others \<Rightarrow>
                (case find_table_name (sel_model s) of
                   Inl err \<Rightarrow> Inl err
                 | Inr model_name \<Rightarrow> Inr (get_attribute row model_name PNone))))"

subsection \<open>Python's \<open>map\<close> with a function that may raise\<close>

fun map_raising :: "('a \<Rightarrow> error + 'b) \<Rightarrow> 'a list \<Rightarrow> error + 'b list" where
  "map_raising f [] = Inr []"
| "map_raising f (x # xs) =
     (case f x of
        Inl err \<Rightarrow> Inl err
      | Inr y \<Rightarrow> (case map_raising f xs of Inl err \<Rightarrow> Inl err | Inr ys \<Rightarrow> Inr (y # ys)))"

subsection \<open>The fields of the join result (lines 180 to 199)\<close>

text \<open>
  The argument \<open>models\<close> of \<open>construct_rows\<close> is a Python list, and lines 194 and 196 test
  \<open>has_attribute(models, ...)\<close> on that list: it is not a \<open>dict\<close>, so the test is
  \<open>hasattr\<close> of a list, which holds for the attributes of Python 2's \<open>list\<close> type only.
\<close>

definition list_attribute_names :: "string list" where
  "list_attribute_names =
     [''__add__'', ''__class__'', ''__contains__'', ''__delattr__'', ''__delitem__'',
      ''__delslice__'', ''__doc__'', ''__eq__'', ''__format__'', ''__ge__'',
      ''__getattribute__'', ''__getitem__'', ''__getslice__'', ''__gt__'', ''__hash__'',
      ''__iadd__'', ''__imul__'', ''__init__'', ''__iter__'', ''__le__'', ''__len__'',
      ''__lt__'', ''__mul__'', ''__ne__'', ''__new__'', ''__reduce__'', ''__reduce_ex__'',
      ''__repr__'', ''__reversed__'', ''__rmul__'', ''__setattr__'', ''__setitem__'',
      ''__sizeof__'', ''__str__'', ''__subclasshook__'', ''append'', ''count'', ''extend'',
      ''index'', ''insert'', ''pop'', ''remove'', ''reverse'', ''sort'']"

definition has_attribute_list :: "'a list \<Rightarrow> string \<Rightarrow> bool" where
  "has_attribute_list xs key = (key \<in> set list_attribute_names)"

text \<open>
  Lines 182 to 190.  Iterating a class manager yields its field names.  The bare
  \<open>except\<close> falls back to \<open>model.class_._sa_class_manager\<close>, which raises when it is
  missing too.
\<close>

definition selected_attributes :: "selectable \<Rightarrow> error + string list" where
  "selected_attributes selectable =
     (if sel_attributes selectable = ''*''
      then (case sa_class_manager (sel_model selectable) of
              Some manager \<Rightarrow> Inr (map fst manager)
            | None \<Rightarrow>
                (case klass (sel_model selectable) of
                   None \<Rightarrow> Inl AttributeError
                 | Some c \<Rightarrow>
                     (case mc_sa_class_manager c of
                        None \<Rightarrow> Inl AttributeError
                      | Some manager \<Rightarrow> Inr (map fst manager))))
      else Inr [sel_attributes selectable])"

text \<open>Lines 193 to 197: the value of \<open>attribute\<close> for one field.\<close>

definition field_attribute :: "selectable list \<Rightarrow> selectable \<Rightarrow> string \<Rightarrow> error + string option" where
  "field_attribute models selectable field =
     (if has_attribute_list models ''class_''
      then (case klass (sel_model selectable) of
              None \<Rightarrow> Inl AttributeError
            | Some c \<Rightarrow>
                (case mc_sa_class_manager c of
                   None \<Rightarrow> Inl AttributeError
                 | Some manager \<Rightarrow>
                     (case map_of manager field of
                        None \<Rightarrow> Inl KeyError
                      | Some txt \<Rightarrow> Inr (Some txt))))
      else if has_attribute_list models ''_sa_class_manager''
      then (case sa_class_manager (sel_model selectable) of
              None \<Rightarrow> Inl AttributeError
            | Some manager \<Rightarrow>
                (case map_of manager field of
                   None \<Rightarrow> Inl KeyError
                 | Some txt \<Rightarrow> Inr (Some txt)))
      else Inr None)"

text \<open>Lines 192 to 199: the loop over the fields of one selectable.\<close>

fun add_columns ::
  "selectable list \<Rightarrow> selectable \<Rightarrow> string list \<Rightarrow> string set \<Rightarrow> error + string set" where
  "add_columns models selectable [] columns = Inr columns"
| "add_columns models selectable (field # more_fields) columns =
     (case field_attribute models selectable field of
        Inl err \<Rightarrow> Inl err
      | Inr None \<Rightarrow> add_columns models selectable more_fields columns
      | Inr (Some a) \<Rightarrow> add_columns models selectable more_fields (insert a columns))"

text \<open>Lines 180 to 199: the loop over the model set, with \<open>labels\<close> and \<open>columns\<close>.\<close>

fun join_fields ::
  "selectable list \<Rightarrow> selectable list \<Rightarrow> string list \<Rightarrow> string set
     \<Rightarrow> error + (string list \<times> string set)" where
  "join_fields models [] labels columns = Inr (labels, columns)"
| "join_fields models (selectable # rest) labels columns =
     (case find_table_name (sel_model selectable) of
        Inl err \<Rightarrow> Inl err
      | Inr name \<Rightarrow>
          (case selected_attributes selectable of
             Inl err \<Rightarrow> Inl err
           | Inr selected \<Rightarrow>
               (case add_columns models selectable selected columns of
                  Inl err \<Rightarrow> Inl err
                | Inr columns' \<Rightarrow> join_fields models rest (labels @ [name]) columns')))"

subsection \<open>Loading objects (lines 203 to 210)\<close>

text \<open>Line 206, \<open>get_attribute(selectable._model, "_secondary_indexes", [])\<close>.\<close>

definition authorized_secondary_indexes :: "entity \<Rightarrow> string list" where
  "authorized_secondary_indexes model =
     (case secondary_indexes model of Some ixs \<Rightarrow> ixs | None \<Rightarrow> [])"

text \<open>Line 207, the \<open>filter\<close>, and line 208, the \<open>map\<close>.\<close>

definition selected_hints :: "string \<Rightarrow> string list \<Rightarrow> hint list \<Rightarrow> hint list" where
  "selected_hints tname authorized hints =
     filter (\<lambda>x. table_name x = tname \<and> (attribute x = ''id'' \<or> attribute x \<in> set authorized))
       hints"

definition reduced_hints :: "hint list \<Rightarrow> (string \<times> pyval) list" where
  "reduced_hints selected = map (\<lambda>x. (attribute x, hint_value x)) selected"

fun load_objects ::
  "env \<Rightarrow> selectable list \<Rightarrow> hint list \<Rightarrow> pyval \<Rightarrow> pyval list \<Rightarrow> error + pyval list" where
  "load_objects e [] hints request_uuid list_results = Inr list_results"
| "load_objects e (selectable # rest) hints request_uuid list_results =
     (case find_table_name (sel_model selectable) of
        Inl err \<Rightarrow> Inl err
      | Inr tname \<Rightarrow>
          (case get_objects e tname request_uuid False
                  (reduced_hints
                     (selected_hints tname
                        (authorized_secondary_indexes (sel_model selectable)) hints)) of
             Inl err \<Rightarrow> Inl err
           | Inr objects \<Rightarrow> load_objects e rest hints request_uuid (list_results @ [objects])))"

subsection \<open>Filtering tuples (lines 219 to 222)\<close>

fun filter_tuples ::
  "pyval list list \<Rightarrow> selectable list \<Rightarrow> string list \<Rightarrow> pyval list \<Rightarrow> error + pyval list" where
  "filter_tuples [] model_set labels rows = Inr rows"
| "filter_tuples (product # rest) model_set labels rows =
     (if length product > 0
      then (case extract_sub_row (PKeyedTuple product labels) model_set labels of
              Inl err \<Rightarrow> Inl err
            | Inr sub \<Rightarrow> filter_tuples rest model_set labels (rows @ [sub]))
      else filter_tuples rest model_set labels rows)"

subsection \<open>Lines 173 to 223: from the selectables to the rows\<close>

definition build_rows ::
  "env \<Rightarrow> selectable list \<Rightarrow> pyval \<Rightarrow> hint list \<Rightarrow> pyval \<Rightarrow> pyval \<Rightarrow> error + pyval list" where
  "build_rows e models criterions hints request_uuid order_by =
     (case join_fields models (extract_models models) [] {} of
        Inl err \<Rightarrow> Inl err
      | Inr (labels, columns) \<Rightarrow>
          (case load_objects e (extract_models models) hints request_uuid [] of
             Inl err \<Rightarrow> Inl err
           | Inr list_results \<Rightarrow>
               (case building_tuples e list_results labels criterions hints order_by of
                  Inl err \<Rightarrow> Inl err
                | Inr tuples \<Rightarrow> filter_tuples tuples (extract_models models) labels [])))"

subsection \<open>Selecting attributes (lines 227 to 265)\<close>

text \<open>Line 228.\<close>

definition showable_selection :: "selectable list \<Rightarrow> selectable list" where
  "showable_selection models = filter (\<lambda>x. \<not> is_hidden x \<or> sel_is_function x) models"

text \<open>Lines 233 to 239: the single row of the branch taken when a selectable is a function.\<close>

fun function_row :: "selectable list \<Rightarrow> pyval list \<Rightarrow> pyval list \<Rightarrow> error + pyval list" where
  "function_row [] rows final_row = Inr final_row"
| "function_row (selection # rest) rows final_row =
     (if sel_is_function selection
      then (case sel_function selection rows of
              Inl err \<Rightarrow> Inl err
            | Inr v \<Rightarrow> function_row rest rows (final_row @ [v]))
      else function_row rest rows (final_row @ [PNone]))"

text \<open>Lines 250 to 255: the value a row gives for a table name.\<close>

definition row_value :: "env \<Rightarrow> pyval \<Rightarrow> string \<Rightarrow> pyval" where
  "row_value e row key =
     (if \<not> is_novabase e row \<and> has_attribute row key
      then get_attribute row key PNone
      else row)"

text \<open>Lines 244 to 260: the projected values of one row.\<close>

fun project_row ::
  "env \<Rightarrow> pyval list \<Rightarrow> selectable list \<Rightarrow> pyval \<Rightarrow> pyval list \<Rightarrow> error + pyval list" where
  "project_row e rows [] row final_row = Inr final_row"
| "project_row e rows (selection # rest) row final_row =
     (if sel_is_function selection
      then (case sel_function selection rows of
              Inl err \<Rightarrow> Inl err
            | Inr v \<Rightarrow> project_row e rows rest row (final_row @ [v]))
      else (case find_table_name (sel_model selection) of
              Inl err \<Rightarrow> Inl err
            | Inr key \<Rightarrow>
                (if row_value e row key \<noteq> PNone
                 then (if sel_attributes selection \<noteq> ''*''
                       then project_row e rows rest row
                              (final_row @
                                 [get_attribute (row_value e row key) (sel_attributes selection) PNone])
                       else project_row e rows rest row (final_row @ [row_value e row key]))
                 else project_row e rows rest row final_row)))"

text \<open>Lines 243 to 265: the loop over the rows, with \<open>final_rows\<close>.\<close>

fun select_rows ::
  "env \<Rightarrow> pyval \<Rightarrow> pyval list \<Rightarrow> selectable list \<Rightarrow> pyval list \<Rightarrow> pyval list
     \<Rightarrow> error + pyval list" where
  "select_rows e request_uuid rows showable [] final_rows = Inr final_rows"
| "select_rows e request_uuid rows showable (row # rest) final_rows =
     (case project_row e rows showable row [] of
        Inl err \<Rightarrow> Inl err
      | Inr final_row \<Rightarrow>
          (case map_raising (\<lambda>x. wrap_with_lazy_value e x True request_uuid) final_row of
             Inl err \<Rightarrow> Inl err
           | Inr wrapped \<Rightarrow>
               (if length showable = 1
                then select_rows e request_uuid rows showable rest (final_rows @ wrapped)
                else select_rows e request_uuid rows showable rest (final_rows @ [PList wrapped]))))"

text \<open>Lines 224 to 283, given the rows of lines 173 to 223.\<close>

definition select_attributes ::
  "env \<Rightarrow> selectable list \<Rightarrow> pyval list \<Rightarrow> pyval \<Rightarrow> error + pyval list" where
  "select_attributes e models rows request_uuid =
     (case get_decoder e request_uuid of
        Inl err \<Rightarrow> Inl err
      | Inr desimplify \<Rightarrow>
          (if any_selectable_is_function models
           then (case function_row (showable_selection models) rows [] of
                   Inl err \<Rightarrow> Inl err
                 | Inr final_row \<Rightarrow>
                     (case map_raising desimplify final_row of
                        Inl err \<Rightarrow> Inl err
                      | Inr decoded \<Rightarrow> Inr [PList decoded]))
           else select_rows e request_uuid rows (showable_selection models) rows []))"

subsection \<open>\<open>construct_rows\<close> (lines 157 to 283)\<close>

definition construct_rows ::
  "env \<Rightarrow> selectable list \<Rightarrow> pyval \<Rightarrow> hint list \<Rightarrow> pyval \<Rightarrow> pyval \<Rightarrow> pyval \<Rightarrow> error + pyval list" where
  "construct_rows e models criterions hints session request_uuid order_by =
     (case build_rows e models criterions hints
             (if request_uuid = PNone then uuid1 e else request_uuid) order_by of
        Inl err \<Rightarrow> Inl err
      | Inr rows \<Rightarrow>
          select_attributes e models rows
            (if request_uuid = PNone then uuid1 e else request_uuid))"

section \<open>Definitions used by the statements\<close>

subsection \<open>The properties, in the words of the specification\<close>

text \<open>
  The elements of a list in the order of their first occurrence, each once: the order
  the specification gives to the resolved model set.
\<close>

fun first_occurrences :: "'a list \<Rightarrow> 'a list" where
  "first_occurrences [] = []"
| "first_occurrences (x # xs) = x # first_occurrences (removeAll x xs)"

text \<open>
  What one selectable gives to the projected list of a row, when \<open>fv s\<close> is the result
  of the function of \<open>s\<close> on the row set and \<open>label s\<close> the table name of its entity: the
  result of the function; or nothing when the value of the row for the label is \<open>None\<close>;
  or that value; or the requested attribute of that value.
\<close>

definition projected_entries ::
  "env \<Rightarrow> pyval \<Rightarrow> (selectable \<Rightarrow> pyval) \<Rightarrow> (selectable \<Rightarrow> string) \<Rightarrow> selectable \<Rightarrow> pyval list" where
  "projected_entries e row fv label s =
     (if sel_is_function s then [fv s]
      else if row_value e row (label s) = PNone then []
      else if sel_attributes s = ''*'' then [row_value e row (label s)]
      else [get_attribute (row_value e row (label s)) (sel_attributes s) PNone])"

subsection \<open>Example inputs\<close>

text \<open>
  Two mapped classes in the style of the fixtures of the test
  (\<open>models.Service\<close>, \<open>models.ComputeNode\<close>), an entity with no attribute at all, a
  composite over a list of clauses, and an entity whose \<open>table\<close> has no \<open>name\<close>.
\<close>

definition service :: entity where
  "service = Entity 1 (Some ''services'') None None None None
               (Some [(''id'', ''Service.id''), (''host'', ''Service.host'')])"

definition compute_node :: entity where
  "compute_node = Entity 2 (Some ''compute_nodes'') None None None (Some [''service_id''])
                    (Some [(''id'', ''ComputeNode.id''), (''vcpus'', ''ComputeNode.vcpus''),
                           (''service_id'', ''ComputeNode.service_id'')])"

definition anonymous :: entity where
  "anonymous = Entity 3 None None None None None None"

definition composite :: "entity list \<Rightarrow> entity" where
  "composite cs = Entity 4 None None None (Some cs) None None"

definition nameless_table :: entity where
  "nameless_table = Entity 5 None (Some (TableDescr None)) None None None None"

definition described :: entity where
  "described = Entity 6 None (Some (TableDescr (Some ''services''))) None None None None"

definition aliased :: entity where
  "aliased = Entity 7 None None (Some (MappedClass (Some ''services'') None)) None None None"

text \<open>Selectables: a stored column, a hidden stored column, and \<open>count\<close> over the rows.\<close>

definition no_function :: "pyval list \<Rightarrow> error + pyval" where
  "no_function rows = Inl (Raised ''not callable'')"

definition column :: "entity \<Rightarrow> string \<Rightarrow> selectable" where
  "column m a = \<lparr>sel_model = m, sel_attributes = a, sel_is_function = False,
                  is_hidden = False, sel_function = no_function\<rparr>"

definition hidden_column :: "entity \<Rightarrow> string \<Rightarrow> selectable" where
  "hidden_column m a = \<lparr>sel_model = m, sel_attributes = a, sel_is_function = False,
                         is_hidden = True, sel_function = no_function\<rparr>"

definition count_rows :: "pyval list \<Rightarrow> error + pyval" where
  "count_rows rows = Inr (PInt (int (length rows)))"

definition count_function :: "bool \<Rightarrow> selectable" where
  "count_function hidden = \<lparr>sel_model = anonymous, sel_attributes = ''*'', sel_is_function = True,
                             is_hidden = hidden, sel_function = count_rows\<rparr>"

text \<open>Stored objects.\<close>

definition service_object :: "int \<Rightarrow> string \<Rightarrow> pyval" where
  "service_object i h =
     PObj ''Service'' [(''__tablename__'', PStr ''services''), (''id'', PInt i), (''host'', PStr h)]"

definition compute_node_object :: "int \<Rightarrow> int \<Rightarrow> pyval" where
  "compute_node_object i sid =
     PObj ''ComputeNode'' [(''__tablename__'', PStr ''compute_nodes''), (''id'', PInt i),
                           (''service_id'', PInt sid), (''vcpus'', PInt 12)]"

text \<open>
  Collaborators: a store with three services and two compute nodes, which ignores the
  hints; a store that answers with the hints it was given; the cartesian product as
  tuple builder; a tuple builder whose second tuple has \<open>None\<close> in the slot of the
  first entity, as an outer join gives; a decoder that turns a dictionary into a
  \<open>datetime\<close> object and leaves any other value as it is.
\<close>

definition store :: "string \<Rightarrow> pyval \<Rightarrow> bool \<Rightarrow> (string \<times> pyval) list \<Rightarrow> error + pyval" where
  "store tname request_uuid skip_loading hs =
     (if tname = ''services''
      then Inr (PList [service_object 1 ''host1'', service_object 2 ''host2'',
                       service_object 3 ''host3''])
      else if tname = ''compute_nodes''
      then Inr (PList [compute_node_object 1 1, compute_node_object 2 1])
      else Inr (PList []))"

definition echo_store :: "string \<Rightarrow> pyval \<Rightarrow> bool \<Rightarrow> (string \<times> pyval) list \<Rightarrow> error + pyval" where
  "echo_store tname request_uuid skip_loading hs =
     Inr (PList (PStr tname # map (\<lambda>(a, v). PList [PStr a, v]) hs))"

fun items :: "pyval \<Rightarrow> pyval list" where
  "items (PList xs) = xs"
| "items v = []"

definition cartesian ::
  "pyval list \<Rightarrow> string list \<Rightarrow> pyval \<Rightarrow> hint list \<Rightarrow> pyval \<Rightarrow> error + pyval list list" where
  "cartesian results labels criterions hints order_by = Inr (product_lists (map items results))"

definition outer_join ::
  "pyval list \<Rightarrow> string list \<Rightarrow> pyval \<Rightarrow> hint list \<Rightarrow> pyval \<Rightarrow> error + pyval list list" where
  "outer_join results labels criterions hints order_by =
     Inr [[service_object 1 ''host1'', compute_node_object 1 1],
          [PNone, compute_node_object 2 7]]"

fun decode :: "pyval \<Rightarrow> error + pyval" where
  "decode (PDict d) = Inr (PObj ''datetime'' d)"
| "decode v = Inr v"

definition example_env :: env where
  "example_env =
     \<lparr>get_objects = store, building_tuples = cartesian,
      is_novabase = (\<lambda>v. hasattr v ''__tablename__''),
      get_decoder = (\<lambda>request_uuid. Inr decode), uuid1 = PStr ''uuid-1''\<rparr>"

definition echo_env :: env where
  "echo_env = example_env\<lparr>get_objects := echo_store\<rparr>"

definition outer_join_env :: env where
  "outer_join_env = example_env\<lparr>building_tuples := outer_join\<rparr>"

text \<open>
  The rows of a request for \<open>Service\<close> against the example store, five hints, and
  the table names of the example entities.
\<close>

definition three_services :: "pyval list" where
  "three_services =
     [service_object 1 ''host1'', service_object 2 ''host2'', service_object 3 ''host3'']"

definition example_hints :: "hint list" where
  "example_hints =
     [\<lparr>table_name = ''services'', attribute = ''id'', hint_value = PInt 1\<rparr>,
      \<lparr>table_name = ''services'', attribute = ''host'', hint_value = PStr ''host1''\<rparr>,
      \<lparr>table_name = ''compute_nodes'', attribute = ''service_id'', hint_value = PInt 1\<rparr>,
      \<lparr>table_name = ''compute_nodes'', attribute = ''vcpus'', hint_value = PInt 12\<rparr>,
      \<lparr>table_name = ''instances'', attribute = ''id'', hint_value = PInt 5\<rparr>]"

definition example_label :: "selectable \<Rightarrow> string" where
  "example_label s = (case tablename (sel_model s) of Some n \<Rightarrow> n | None \<Rightarrow> ''none'')"

section \<open>Theorems\<close>

subsection \<open>\<open>wrap_with_lazy_value\<close>\<close>

text \<open>
  C10.  For the value \<open>None\<close>, \<open>wrap_with_lazy_value\<close> returns \<open>None\<close>: no deferred handle
  is built and the decoder is not consulted, whatever \<open>only_if_necessary\<close>, the request
  uuid and the collaborators are.
\<close>

theorem wrap_with_lazy_value_None:
  "wrap_with_lazy_value e PNone only_if_necessary request_uuid = Inr PNone"
  by (simp add: wrap_with_lazy_value_def)

text \<open>
  C3, as the claim states it, fails: a boolean is not passed through.  Line 148 lists the
  type names \<open>int\<close>, \<open>str\<close>, \<open>float\<close> and \<open>unicode\<close>, and the type name of \<open>True\<close> is
  \<open>bool\<close>, so \<open>True\<close> becomes a deferred handle.
\<close>

theorem wrap_with_lazy_value_bool_counterexample:
  "wrap_with_lazy_value example_env (PBool True) True (PStr ''request-1'')
     = Inr (PLazy (PBool True) (PStr ''request-1''))
   \<and> wrap_with_lazy_value example_env (PBool True) True (PStr ''request-1'')
     \<noteq> Inr (PBool True)"
  by (simp add: wrap_with_lazy_value_def)

text \<open>
  C3, amended.  With \<open>only_if_necessary\<close> at its default \<open>True\<close>, as the projection calls
  it: an \<open>int\<close>, a \<open>float\<close>, a \<open>str\<close> and a \<open>unicode\<close> value pass through unwrapped; a
  boolean and a \<open>long\<close> become deferred handles carrying the request uuid; a \<open>dict\<close> with
  the key \<open>timezone\<close> is given to the \<open>desimplify\<close> of the decoder of the request uuid,
  whose result or exception is the result; every other value that is not \<open>None\<close> becomes
  a deferred handle carrying the request uuid.
\<close>

theorem wrap_with_lazy_value_cases:
  "wrap_with_lazy_value e (PInt i) True u = Inr (PInt i)
   \<and> wrap_with_lazy_value e (PFloat w) True u = Inr (PFloat w)
   \<and> wrap_with_lazy_value e (PStr s) True u = Inr (PStr s)
   \<and> wrap_with_lazy_value e (PUnicode s) True u = Inr (PUnicode s)
   \<and> wrap_with_lazy_value e (PBool b) True u = Inr (PLazy (PBool b) u)
   \<and> wrap_with_lazy_value e (PLong i) True u = Inr (PLazy (PLong i) u)
   \<and> (map_of d ''timezone'' \<noteq> None \<longrightarrow>
        wrap_with_lazy_value e (PDict d) True u =
          (case get_decoder e u of Inl err \<Rightarrow> Inl err | Inr desimplify \<Rightarrow> desimplify (PDict d)))
   \<and> (val \<noteq> PNone \<and> type_name val \<notin> {''int'', ''str'', ''float'', ''unicode''}
        \<and> \<not> (is_dict val \<and> dict_contains val ''timezone'') \<longrightarrow>
        wrap_with_lazy_value e val True u = Inr (PLazy val u))"
  by (simp add: wrap_with_lazy_value_def)

theorem wrap_with_lazy_value_cases_witness:
  "wrap_with_lazy_value example_env (PInt 3) True (PStr ''request-1'') = Inr (PInt 3)
   \<and> wrap_with_lazy_value example_env (PStr ''host1'') True (PStr ''request-1'') = Inr (PStr ''host1'')
   \<and> wrap_with_lazy_value example_env
        (PDict [(''value'', PStr ''2015-01-01''), (''timezone'', PStr ''UTC'')]) True
        (PStr ''request-1'')
     = Inr (PObj ''datetime'' [(''value'', PStr ''2015-01-01''), (''timezone'', PStr ''UTC'')])
   \<and> wrap_with_lazy_value example_env (service_object 1 ''host1'') True (PStr ''request-1'')
     = Inr (PLazy (service_object 1 ''host1'') (PStr ''request-1''))
   \<and> wrap_with_lazy_value example_env (PDict [(''id'', PInt 1)]) True (PStr ''request-1'')
     = Inr (PLazy (PDict [(''id'', PInt 1)]) (PStr ''request-1''))"
  using
    wrap_with_lazy_value_cases
      [of example_env 3 "PStr ''request-1''" 0 "''host1''" True
          "[(''value'', PStr ''2015-01-01''), (''timezone'', PStr ''UTC'')]"
          "service_object 1 ''host1''"]
    wrap_with_lazy_value_cases
      [of example_env 3 "PStr ''request-1''" 0 "''host1''" True
          "[(''value'', PStr ''2015-01-01''), (''timezone'', PStr ''UTC'')]"
          "PDict [(''id'', PInt 1)]"]
  by (simp add: example_env_def service_object_def)

subsection \<open>\<open>find_table_name\<close>\<close>

lemma find_table_name_errors: "find_table_name m = Inl err \<Longrightarrow> err = AttributeError"
  by (induction m rule: find_table_name.induct) (auto split: option.splits list.splits)

text \<open>
  The docstring of lines 62 to 66 promises the table name or \<open>"none"\<close>.  On an object
  whose \<open>table\<close> has no \<open>name\<close>, the access \<open>model.table.name\<close> of line 70 is not guarded
  and the function raises instead.
\<close>

lemma find_table_name_nameless_table: "find_table_name nameless_table = Inl AttributeError"
  by (simp add: nameless_table_def)

text \<open>
  C6, as the claim states it, fails.  A composite is resolved by its first clause alone,
  resolvable or not: with an unresolvable first clause and \<open>Service\<close> as second clause
  the result is \<open>"none"\<close>, not \<open>"services"\<close>, the name that the first resolvable clause
  yields.
\<close>

theorem find_table_name_counterexample:
  "find_table_name (composite [anonymous, service]) = Inr ''none''
   \<and> find_table_name anonymous = Inr ''none''
   \<and> find_table_name service = Inr ''services''"
  by (simp add: composite_def anonymous_def service_def)

text \<open>
  C6, amended.  \<open>find_table_name\<close> tries the four shapes in the order \<open>__tablename__\<close>,
  \<open>table\<close>, \<open>class_\<close>, \<open>clauses\<close>, and the first attribute the model has decides: the
  value of \<open>__tablename__\<close>; the \<open>name\<close> of a \<open>table\<close> that has one; the
  \<open>__tablename__\<close> of a \<open>class_\<close> that has one; whatever the first clause of \<open>clauses\<close>
  resolves to.  A model with none of the four attributes, or with an empty \<open>clauses\<close>,
  gives \<open>"none"\<close>.  Nothing is stated for a \<open>table\<close> without \<open>name\<close> or a \<open>class_\<close>
  without \<open>__tablename__\<close>.
\<close>

theorem find_table_name_shapes:
  "(tablename m = Some n \<longrightarrow> find_table_name m = Inr n)
   \<and> (tablename m = None \<and> table m = Some (TableDescr (Some n)) \<longrightarrow>
        find_table_name m = Inr n)
   \<and> (tablename m = None \<and> table m = None \<and> klass m = Some c \<and> mc_tablename c = Some n \<longrightarrow>
        find_table_name m = Inr n)
   \<and> (tablename m = None \<and> table m = None \<and> klass m = None \<and> clauses m = Some (clause # rest) \<longrightarrow>
        find_table_name m = find_table_name clause)
   \<and> (tablename m = None \<and> table m = None \<and> klass m = None
        \<and> (clauses m = None \<or> clauses m = Some []) \<longrightarrow>
        find_table_name m = Inr ''none'')"
  by (cases m) (auto split: option.splits list.splits)

theorem find_table_name_shapes_witness:
  "find_table_name service = Inr ''services''
   \<and> find_table_name described = Inr ''services''
   \<and> find_table_name aliased = Inr ''services''
   \<and> find_table_name (composite [service, compute_node]) = find_table_name service
   \<and> find_table_name (composite [anonymous, service]) = find_table_name anonymous
   \<and> find_table_name (composite []) = Inr ''none''
   \<and> find_table_name anonymous = Inr ''none''"
  using
    find_table_name_shapes [of service "''services''"]
    find_table_name_shapes [of described "''services''"]
    find_table_name_shapes [of aliased "''services''" "MappedClass (Some ''services'') None"]
    find_table_name_shapes [of "composite [service, compute_node]" _ _ service "[compute_node]"]
    find_table_name_shapes [of "composite [anonymous, service]" _ _ anonymous "[service]"]
    find_table_name_shapes [of "composite []"]
    find_table_name_shapes [of anonymous]
  by (simp add: service_def described_def aliased_def composite_def anonymous_def)

subsection \<open>\<open>extract_models\<close>\<close>

lemma extract_models_loop_models:
  "map sel_model (extract_models_loop xs S res) =
     map sel_model res @ first_occurrences (filter (\<lambda>m. m \<notin> S) (map sel_model xs))"
proof (induction xs arbitrary: S res)
  case Nil
  then show ?case by simp
next
  case (Cons x xs)
  have eq: "removeAll (sel_model x) (filter (\<lambda>m. m \<notin> S) (map sel_model xs)) =
        filter (\<lambda>m. m \<notin> insert (sel_model x) S) (map sel_model xs)"
    by (induction xs) auto
  show ?case
    using Cons.IH [of "insert (sel_model x) S" "res @ [x]"] Cons.IH [of S res] eq
    by simp
qed

lemma first_occurrences_set: "set (first_occurrences xs) = set xs"
  by (induction xs rule: first_occurrences.induct) auto

lemma first_occurrences_distinct: "distinct (first_occurrences xs)"
  by (induction xs rule: first_occurrences.induct) (auto simp: first_occurrences_set)

lemma extract_models_loop_set:
  "x \<in> set (extract_models_loop xs S res) \<Longrightarrow>
     x \<in> set res \<or> (sel_model x \<notin> S \<and> List.find (\<lambda>y. sel_model y = sel_model x) xs = Some x)"
proof (induction xs arbitrary: S res)
  case Nil
  then show ?case by simp
next
  case (Cons a xs)
  show ?case
  proof (cases "sel_model a \<in> S")
    case True
    with Cons.prems have "x \<in> set (extract_models_loop xs S res)" by simp
    from Cons.IH [OF this] True show ?thesis by auto
  next
    case False
    with Cons.prems
    have "x \<in> set (extract_models_loop xs (insert (sel_model a) S) (res @ [a]))" by simp
    from Cons.IH [OF this] False show ?thesis by auto
  qed
qed

lemma find_filter: "List.find P (filter Q xs) = List.find (\<lambda>x. Q x \<and> P x) xs"
  by (induction xs) auto

text \<open>
  C8.  The entities of the model set are the entities of the selectables that are not
  functions, in the order of their first occurrence, each exactly once; and the
  selectable that stands for an entity is the first one of the list that is not a
  function and refers to it.  The witness is the list \<open>[A, A, B]\<close> of the specification:
  two columns of \<open>Service\<close> and one of \<open>ComputeNode\<close>.
\<close>

theorem extract_models_first_occurrences:
  "map sel_model (extract_models l) =
     first_occurrences (map sel_model (filter (\<lambda>x. \<not> sel_is_function x) l))
   \<and> distinct (map sel_model (extract_models l))
   \<and> set (map sel_model (extract_models l)) = sel_model ` {x \<in> set l. \<not> sel_is_function x}
   \<and> (\<forall>x \<in> set (extract_models l).
         List.find (\<lambda>y. \<not> sel_is_function y \<and> sel_model y = sel_model x) l = Some x)"
proof -
  have models: "map sel_model (extract_models l) =
     first_occurrences (map sel_model (filter (\<lambda>x. \<not> sel_is_function x) l))"
    by (simp add: extract_models_def extract_models_loop_models)
  have d: "distinct (map sel_model (extract_models l))"
    by (simp only: models first_occurrences_distinct)
  have s: "set (map sel_model (extract_models l)) = sel_model ` {x \<in> set l. \<not> sel_is_function x}"
    by (simp only: models first_occurrences_set) auto
  have f: "\<forall>x \<in> set (extract_models l).
         List.find (\<lambda>y. \<not> sel_is_function y \<and> sel_model y = sel_model x) l = Some x"
  proof
    fix x assume "x \<in> set (extract_models l)"
    then have "x \<in> set (extract_models_loop (filter (\<lambda>x. \<not> sel_is_function x) l) {} [])"
      by (simp add: extract_models_def)
    from extract_models_loop_set [OF this]
    show "List.find (\<lambda>y. \<not> sel_is_function y \<and> sel_model y = sel_model x) l = Some x"
      by (simp add: find_filter)
  qed
  from models d s f show ?thesis by blast
qed

theorem extract_models_first_occurrences_witness:
  "extract_models [column service ''host'', column service ''id'', count_function False,
                   column compute_node ''*'']
     = [column service ''host'', column compute_node ''*'']
   \<and> map sel_model
        (extract_models [column service ''host'', column service ''id'', count_function False,
                         column compute_node ''*''])
     = [service, compute_node]
   \<and> distinct [service, compute_node]"
  using extract_models_first_occurrences
    [of "[column service ''host'', column service ''id'', count_function False,
          column compute_node ''*'']"]
  by (simp add: extract_models_def column_def count_function_def service_def compute_node_def)

lemmas example_defs =
  build_rows_def extract_models_def column_def hidden_column_def count_function_def
  count_rows_def service_def compute_node_def example_env_def outer_join_env_def
  selected_attributes_def field_attribute_def has_attribute_list_def list_attribute_names_def
  store_def cartesian_def outer_join_def extract_sub_row_def hasattr_def getattr_def
  showable_selection_def any_selectable_is_function_def row_value_def
  wrap_with_lazy_value_def service_object_def compute_node_object_def three_services_def

subsection \<open>Python's \<open>map\<close>\<close>

lemma map_raising_closed:
  "\<forall>x\<in>set xs. f x = Inr (g x) \<Longrightarrow> map_raising f xs = Inr (map g xs)"
  by (induction xs) auto

lemma map_raising_map:
  "\<forall>x\<in>set xs. f (h x) = Inr (g x) \<Longrightarrow> map_raising f (map h xs) = Inr (map g xs)"
  by (induction xs) auto

lemma map_raising_single:
  "map_raising f [v] = Inr ys \<Longrightarrow> \<exists>x. ys = [x] \<and> f v = Inr x"
  by (auto split: sum.splits)

lemma map_raising_length:
  "map_raising f xs = Inr ys \<Longrightarrow> length ys = length xs"
  by (induction xs arbitrary: ys) (auto split: sum.splits)

subsection \<open>The fields of the join result\<close>

lemma add_columns_unchanged: "add_columns models s fs columns = Inr cs \<Longrightarrow> cs = columns"
  by (induction fs arbitrary: columns)
     (auto simp: field_attribute_def has_attribute_list_def list_attribute_names_def)

lemma join_fields_columns_unchanged:
  "join_fields models ms labels columns = Inr (ls, cs) \<Longrightarrow> cs = columns"
  by (induction ms arbitrary: labels columns)
     (auto split: sum.splits dest: add_columns_unchanged)

text \<open>
  C5 fails on the code.  For the request of the column \<open>host\<close> of \<open>Service\<close> and all
  columns of \<open>ComputeNode\<close>, the attributes selected per entity are as the claim says
  (\<open>host\<close>; \<open>id\<close>, \<open>vcpus\<close>, \<open>service_id\<close>), but the accumulated set \<open>columns\<close> is empty
  after the loop: lines 194 and 196 test the list \<open>models\<close> and not the entity, so
  \<open>attribute\<close> stays \<open>None\<close> and line 199 is never reached.
\<close>

theorem join_fields_columns_empty:
  "join_fields [column service ''host'', column compute_node ''*'']
     (extract_models [column service ''host'', column compute_node ''*'']) [] {}
   = Inr ([''services'', ''compute_nodes''], {})
   \<and> selected_attributes (column service ''host'') = Inr [''host'']
   \<and> selected_attributes (column compute_node ''*'') = Inr [''id'', ''vcpus'', ''service_id'']"
  by (simp add: extract_models_def column_def service_def compute_node_def
        selected_attributes_def field_attribute_def has_attribute_list_def
        list_attribute_names_def)

subsection \<open>Loading objects\<close>

lemma load_objects_acc:
  "\<forall>s\<in>set ms. find_table_name (sel_model s) = Inr (label s) \<Longrightarrow>
   load_objects e ms hints u acc =
     (case map_raising
             (\<lambda>s. get_objects e (label s) u False
                [(attribute h, hint_value h). h \<leftarrow> hints,
                   table_name h = label s \<and>
                   (attribute h = ''id'' \<or>
                    attribute h \<in> set (case secondary_indexes (sel_model s) of
                                          None \<Rightarrow> [] | Some ixs \<Rightarrow> ixs))]) ms of
        Inl err \<Rightarrow> Inl err
      | Inr objs \<Rightarrow> Inr (acc @ objs))"
proof (induction ms arbitrary: acc)
  case Nil
  then show ?case by simp
next
  case (Cons s ms)
  have pairs: "reduced_hints (selected_hints (label s) (authorized_secondary_indexes (sel_model s)) hints)
      = [(attribute h, hint_value h). h \<leftarrow> hints,
                   table_name h = label s \<and>
                   (attribute h = ''id'' \<or>
                    attribute h \<in> set (case secondary_indexes (sel_model s) of
                                          None \<Rightarrow> [] | Some ixs \<Rightarrow> ixs))]"
    by (induction hints)
       (auto simp: reduced_hints_def selected_hints_def authorized_secondary_indexes_def)
  from Cons.prems have name: "find_table_name (sel_model s) = Inr (label s)"
    and rest: "\<forall>s\<in>set ms. find_table_name (sel_model s) = Inr (label s)"
    by simp_all
  show ?case
    by (simp add: name pairs Cons.IH [OF rest] split: sum.splits)
qed

text \<open>
  C7.  When the table name of every entity of the model set resolves (\<open>label s\<close>), the
  loading loop calls the object loader once per entity, in order, and the hints it
  passes are the pairs (attribute, value), in the order of the hint list, of exactly the
  hints whose table name is the table name of the entity and whose attribute is \<open>id\<close>
  or is in \<open>_secondary_indexes\<close> of the entity (the empty list when the entity has
  none).  The result is the list of what the loader returned, or its first exception.
\<close>

theorem load_objects_hints:
  assumes "\<forall>s\<in>set model_set. find_table_name (sel_model s) = Inr (label s)"
  shows "load_objects e model_set hints u [] =
     map_raising
       (\<lambda>s. get_objects e (label s) u False
          [(attribute h, hint_value h). h \<leftarrow> hints,
             table_name h = label s \<and>
             (attribute h = ''id'' \<or>
              attribute h \<in> set (case secondary_indexes (sel_model s) of
                                    None \<Rightarrow> [] | Some ixs \<Rightarrow> ixs))]) model_set"
  using load_objects_acc [OF assms, of e hints u "[]"]
  by (simp split: sum.splits)

theorem load_objects_hints_witness:
  "load_objects echo_env [column service ''*'', column compute_node ''*''] example_hints
     (PStr ''request-1'') []
   = Inr [PList [PStr ''services'', PList [PStr ''id'', PInt 1]],
          PList [PStr ''compute_nodes'', PList [PStr ''service_id'', PInt 1]]]"
proof -
  have names: "\<forall>s\<in>set [column service ''*'', column compute_node ''*''].
      find_table_name (sel_model s) = Inr (example_label s)"
    by (simp add: column_def service_def compute_node_def example_label_def)
  show ?thesis
    using load_objects_hints [OF names, of echo_env example_hints "PStr ''request-1''"]
    by (simp add: echo_env_def example_env_def echo_store_def example_hints_def
          example_label_def column_def service_def compute_node_def)
qed

subsection \<open>Selecting attributes\<close>

lemma function_row_closed:
  "\<forall>s\<in>set sels. sel_is_function s \<longrightarrow> sel_function s rows = Inr (fv s) \<Longrightarrow>
   function_row sels rows acc =
     Inr (acc @ map (\<lambda>s. if sel_is_function s then fv s else PNone) sels)"
  by (induction sels arbitrary: acc) auto

lemma project_row_closed:
  "\<forall>s\<in>set sels. (sel_is_function s \<longrightarrow> sel_function s rows = Inr (fv s))
       \<and> (\<not> sel_is_function s \<longrightarrow> find_table_name (sel_model s) = Inr (label s)) \<Longrightarrow>
   project_row e rows sels row acc =
     Inr (acc @ concat (map (projected_entries e row fv label) sels))"
  by (induction sels arbitrary: acc) (auto simp: projected_entries_def)

lemma project_row_length:
  "project_row e rows sels row acc = Inr vs \<Longrightarrow> length vs \<le> length acc + length sels"
proof (induction sels arbitrary: acc)
  case Nil
  then show ?case by simp
next
  case (Cons s sels)
  show ?case
  proof (cases "sel_is_function s")
    case True
    with Cons.prems obtain v where "sel_function s rows = Inr v"
      and "project_row e rows sels row (acc @ [v]) = Inr vs"
      by (auto split: sum.splits)
    from Cons.IH [OF this(2)] show ?thesis by simp
  next
    case False
    with Cons.prems obtain key where k: "find_table_name (sel_model s) = Inr key"
      by (auto split: sum.splits)
    show ?thesis
    proof (cases "row_value e row key = PNone")
      case True
      with False k Cons.prems have "project_row e rows sels row acc = Inr vs" by simp
      from Cons.IH [OF this] show ?thesis by simp
    next
      case nn: False
      show ?thesis
      proof (cases "sel_attributes s = ''*''")
        case True
        with nn False k Cons.prems
        have "project_row e rows sels row (acc @ [row_value e row key]) = Inr vs" by simp
        from Cons.IH [OF this] show ?thesis by simp
      next
        case star: False
        with nn False k Cons.prems
        have "project_row e rows sels row
                (acc @ [get_attribute (row_value e row key) (sel_attributes s) PNone]) = Inr vs"
          by simp
        from Cons.IH [OF this] show ?thesis by simp
      qed
    qed
  qed
qed

lemma select_rows_closed:
  "\<forall>row\<in>set rs. project_row e rows showable row [] = Inr (pv row)
       \<and> map_raising (\<lambda>x. wrap_with_lazy_value e x True u) (pv row) = Inr (wv row) \<Longrightarrow>
   select_rows e u rows showable rs acc =
     Inr (acc @ (if length showable = 1 then concat (map wv rs) else map (\<lambda>r. PList (wv r)) rs))"
  by (induction rs arbitrary: acc) auto

text \<open>
  C1.  A visible selectable is a member of \<open>showable_selection\<close> (line 228: not hidden, or
  a function).  When a selectable that is not hidden is a function, the rows of lines
  173 to 223 are \<open>rows\<close>, the decoder is available, each function returns (\<open>fv s\<close>) and
  the decoder returns on each entry (\<open>dv s\<close>), \<open>construct_rows\<close> returns one row: for each
  visible selectable, in order, the decoded result of its function on \<open>rows\<close>, or the
  decoded \<open>None\<close> when it is not a function.  The witness has scenario 3 of the
  specification: \<open>count\<close> as the only visible selectable over three loaded services.
\<close>

theorem construct_rows_function_branch:
  assumes "any_selectable_is_function models"
    and "build_rows e models criterions hints
           (if request_uuid = PNone then uuid1 e else request_uuid) order_by = Inr rows"
    and "get_decoder e (if request_uuid = PNone then uuid1 e else request_uuid) = Inr desimplify"
    and "\<forall>s\<in>set (showable_selection models).
           sel_is_function s \<longrightarrow> sel_function s rows = Inr (fv s)"
    and "\<forall>s\<in>set (showable_selection models).
           desimplify (if sel_is_function s then fv s else PNone) = Inr (dv s)"
  shows "construct_rows e models criterions hints session request_uuid order_by =
           Inr [PList (map dv (showable_selection models))]"
proof -
  have row: "function_row (showable_selection models) rows [] =
      Inr (map (\<lambda>s. if sel_is_function s then fv s else PNone) (showable_selection models))"
    using function_row_closed [OF assms(4), of "[]"] by simp
  have dec: "map_raising desimplify
        (map (\<lambda>s. if sel_is_function s then fv s else PNone) (showable_selection models)) =
      Inr (map dv (showable_selection models))"
    using assms(5) by (rule map_raising_map)
  show ?thesis
    by (simp add: construct_rows_def select_attributes_def assms(1-3) row dec)
qed

theorem construct_rows_function_branch_witness:
  "construct_rows example_env [hidden_column service ''*'', count_function False]
     PNone [] PNone PNone PNone
     = Inr [PList [PInt 3]]
   \<and> construct_rows example_env [column service ''host'', count_function False]
     PNone [] PNone PNone PNone
     = Inr [PList [PNone, PInt 3]]"
proof -
  let ?count = "[hidden_column service ''*'', count_function False]"
  let ?mixed = "[column service ''host'', count_function False]"
  let ?entry = "\<lambda>s. if sel_is_function s then PInt 3 else PNone"
  have a1: "any_selectable_is_function ?count" and a2: "any_selectable_is_function ?mixed"
    by (simp_all add: example_defs)
  have b1: "build_rows example_env ?count PNone []
             (if PNone = PNone then uuid1 example_env else PNone) PNone = Inr three_services"
    by (simp add: example_defs)
  have b2: "build_rows example_env ?mixed PNone []
             (if PNone = PNone then uuid1 example_env else PNone) PNone = Inr three_services"
    by (simp add: example_defs)
  have c: "get_decoder example_env (if PNone = PNone then uuid1 example_env else PNone) = Inr decode"
    by (simp add: example_defs)
  have d1: "\<forall>s\<in>set (showable_selection ?count).
             sel_is_function s \<longrightarrow> sel_function s three_services = Inr (PInt 3)"
    by (simp add: example_defs)
  have d2: "\<forall>s\<in>set (showable_selection ?mixed).
             sel_is_function s \<longrightarrow> sel_function s three_services = Inr (PInt 3)"
    by (simp add: example_defs)
  have e1: "\<forall>s\<in>set (showable_selection ?count).
             decode (if sel_is_function s then PInt 3 else PNone) = Inr (?entry s)"
    by (simp add: example_defs)
  have e2: "\<forall>s\<in>set (showable_selection ?mixed).
             decode (if sel_is_function s then PInt 3 else PNone) = Inr (?entry s)"
    by (simp add: example_defs)
  show ?thesis
    using construct_rows_function_branch [OF a1 b1 c d1 e1, of PNone]
          construct_rows_function_branch [OF a2 b2 c d2 e2, of PNone]
    by (simp add: example_defs)
qed

text \<open>
  C2, as the claim states it, fails: a selectable whose value for the row is \<open>None\<close>
  gives no entry (line 256).  With a tuple whose \<open>Service\<close> slot is \<open>None\<close>, the second
  row of a request for two visible columns has one entry.
\<close>

theorem project_row_none_counterexample:
  "construct_rows outer_join_env [column service ''host'', column compute_node ''vcpus'']
     PNone [] PNone PNone PNone
     = Inr [PList [PStr ''host1'', PInt 12], PList [PInt 12]]
   \<and> length (showable_selection [column service ''host'', column compute_node ''vcpus'']) = 2
   \<and> \<not> any_selectable_is_function [column service ''host'', column compute_node ''vcpus'']"
  by (simp add: construct_rows_def build_rows_def select_attributes_def extract_models_def
        column_def service_def compute_node_def outer_join_env_def example_env_def
        selected_attributes_def field_attribute_def has_attribute_list_def
        list_attribute_names_def store_def outer_join_def extract_sub_row_def
        hasattr_def getattr_def any_selectable_is_function_def showable_selection_def
        row_value_def wrap_with_lazy_value_def service_object_def compute_node_object_def)

text \<open>
  C2, amended.  The projected list of a row (lines 244 to 260) is, for each visible
  selectable in order: the result of its function when it is a function; otherwise,
  with \<open>sub\<close> the value at the label of its entity when the row is not a stored object
  and has that label, and the row itself otherwise: no entry when \<open>sub\<close> is \<open>None\<close>, \<open>sub\<close>
  when all attributes were requested, and the requested attribute of \<open>sub\<close> (\<open>None\<close> when
  \<open>sub\<close> does not have it) otherwise.
\<close>

theorem project_row_entries:
  assumes "\<forall>s\<in>set (showable_selection models).
             sel_is_function s \<longrightarrow> sel_function s rows = Inr (fv s)"
    and "\<forall>s\<in>set (showable_selection models).
             \<not> sel_is_function s \<longrightarrow> find_table_name (sel_model s) = Inr (label s)"
  shows "project_row e rows (showable_selection models) row [] =
     Inr (concat (map
       (\<lambda>s. if sel_is_function s then [fv s]
            else (let sub = (if \<not> is_novabase e row \<and> has_attribute row (label s)
                             then get_attribute row (label s) PNone else row)
                  in if sub = PNone then []
                     else if sel_attributes s = ''*'' then [sub]
                     else [get_attribute sub (sel_attributes s) PNone]))
       (showable_selection models)))"
proof -
  have "\<forall>s\<in>set (showable_selection models).
      (sel_is_function s \<longrightarrow> sel_function s rows = Inr (fv s))
      \<and> (\<not> sel_is_function s \<longrightarrow> find_table_name (sel_model s) = Inr (label s))"
    using assms by blast
  from project_row_closed [OF this, of e row "[]"]
  have closed: "project_row e rows (showable_selection models) row [] =
      Inr (concat (map (projected_entries e row fv label) (showable_selection models)))"
    by simp
  have entries: "projected_entries e row fv label =
       (\<lambda>s. if sel_is_function s then [fv s]
            else (let sub = (if \<not> is_novabase e row \<and> has_attribute row (label s)
                             then get_attribute row (label s) PNone else row)
                  in if sub = PNone then []
                     else if sel_attributes s = ''*'' then [sub]
                     else [get_attribute sub (sel_attributes s) PNone]))"
    by (rule ext) (simp add: projected_entries_def row_value_def Let_def)
  show ?thesis
    unfolding closed entries ..
qed

theorem project_row_entries_witness:
  "project_row example_env three_services
     (showable_selection [column service ''host'', column service ''*'', count_function True])
     (service_object 2 ''host2'') []
   = Inr [PStr ''host2'', service_object 2 ''host2'', PInt 3]"
proof -
  have f: "\<forall>s\<in>set (showable_selection
                 [column service ''host'', column service ''*'', count_function True]).
             sel_is_function s \<longrightarrow> sel_function s three_services = Inr (PInt 3)"
    by (simp add: showable_selection_def column_def count_function_def count_rows_def
          three_services_def)
  have n: "\<forall>s\<in>set (showable_selection
                 [column service ''host'', column service ''*'', count_function True]).
             \<not> sel_is_function s \<longrightarrow> find_table_name (sel_model s) = Inr (example_label s)"
    by (simp add: showable_selection_def column_def count_function_def service_def
          example_label_def)
  show ?thesis
    using project_row_entries [OF f n, of example_env "service_object 2 ''host2''"]
    by (simp add: showable_selection_def column_def count_function_def service_def
          example_label_def example_env_def service_object_def hasattr_def getattr_def)
qed

text \<open>
  C4, as the claim states it, fails: with exactly one visible column, a row whose value
  is \<open>None\<close> contributes nothing.  Two rows are built and the final sequence has one
  element.
\<close>

theorem construct_rows_flattening_counterexample:
  "construct_rows outer_join_env [column service ''host'', hidden_column compute_node ''*'']
     PNone [] PNone PNone PNone
     = Inr [PStr ''host1'']
   \<and> length (showable_selection [column service ''host'', hidden_column compute_node ''*'']) = 1
   \<and> \<not> any_selectable_is_function [column service ''host'', hidden_column compute_node ''*'']
   \<and> build_rows outer_join_env [column service ''host'', hidden_column compute_node ''*'']
        PNone [] (PStr ''uuid-1'') PNone
     = Inr [PKeyedTuple [service_object 1 ''host1'', compute_node_object 1 1]
              [''services'', ''compute_nodes''],
            PKeyedTuple [PNone, compute_node_object 2 7] [''services'', ''compute_nodes'']]"
  by (simp add: construct_rows_def select_attributes_def example_defs)

text \<open>
  C4, amended.  In the branch without function, when \<open>pv row\<close> is the projected list of
  a row and \<open>wv row\<close> that list wrapped.  With exactly one visible selectable \<open>s\<close>, the
  final sequence is the concatenation of the wrapped lists, and each row contributes:
  nothing, when \<open>s\<close> is not a function and the value of the row for the table name of its
  entity is \<open>None\<close>; the single wrapped scalar of that value (or of its requested
  attribute) when the value is not \<open>None\<close>; the single wrapped result of the function
  when \<open>s\<close> is a (hidden) function.  With any other number of visible selectables the
  final sequence has one list per row.
\<close>

theorem construct_rows_flattening:
  assumes "\<not> any_selectable_is_function models"
    and "build_rows e models criterions hints
           (if request_uuid = PNone then uuid1 e else request_uuid) order_by = Inr rows"
    and "get_decoder e (if request_uuid = PNone then uuid1 e else request_uuid) = Inr desimplify"
    and "\<forall>row\<in>set rows. project_row e rows (showable_selection models) row [] = Inr (pv row)"
    and "\<forall>row\<in>set rows.
           map_raising
             (\<lambda>x. wrap_with_lazy_value e x True
                     (if request_uuid = PNone then uuid1 e else request_uuid)) (pv row)
           = Inr (wv row)"
  shows "(length (showable_selection models) = 1 \<longrightarrow>
            construct_rows e models criterions hints session request_uuid order_by
              = Inr (concat (map wv rows))
            \<and> (\<forall>row\<in>set rows. wv row = [] \<or> (\<exists>x. wv row = [x]))
            \<and> (\<forall>row\<in>set rows. \<forall>s key.
                  showable_selection models = [s] \<and> \<not> sel_is_function s
                  \<and> find_table_name (sel_model s) = Inr key \<longrightarrow>
                  (let sub = (if \<not> is_novabase e row \<and> has_attribute row key
                              then get_attribute row key PNone else row)
                   in (sub = PNone \<longrightarrow> wv row = [])
                      \<and> (sub \<noteq> PNone \<longrightarrow>
                           (\<exists>x. wv row = [x]
                              \<and> wrap_with_lazy_value e
                                   (if sel_attributes s = ''*'' then sub
                                    else get_attribute sub (sel_attributes s) PNone)
                                   True (if request_uuid = PNone then uuid1 e else request_uuid)
                                 = Inr x))))
            \<and> (\<forall>row\<in>set rows. \<forall>s.
                  showable_selection models = [s] \<and> sel_is_function s \<longrightarrow>
                  (\<exists>v x. sel_function s rows = Inr v \<and> wv row = [x]
                     \<and> wrap_with_lazy_value e v True
                          (if request_uuid = PNone then uuid1 e else request_uuid) = Inr x)))
       \<and> (length (showable_selection models) \<noteq> 1 \<longrightarrow>
            construct_rows e models criterions hints session request_uuid order_by
              = Inr (map (\<lambda>row. PList (wv row)) rows))"
proof -
  let ?u = "if request_uuid = PNone then uuid1 e else request_uuid"
  have both: "\<forall>row\<in>set rows. project_row e rows (showable_selection models) row [] = Inr (pv row)
       \<and> map_raising (\<lambda>x. wrap_with_lazy_value e x True ?u) (pv row) = Inr (wv row)"
    using assms(4,5) by blast
  have final: "construct_rows e models criterions hints session request_uuid order_by =
      Inr (if length (showable_selection models) = 1 then concat (map wv rows)
           else map (\<lambda>r. PList (wv r)) rows)"
    using select_rows_closed [OF both, of "[]"]
    by (simp add: construct_rows_def select_attributes_def assms(1-3))
  have short: "wv row = [] \<or> (\<exists>x. wv row = [x])"
    if "row \<in> set rows" and one: "length (showable_selection models) = 1" for row
  proof -
    from that assms(4) have "length (pv row) \<le> 1"
      using project_row_length [of e rows "showable_selection models" row "[]" "pv row"]
      by simp
    moreover from that assms(5) have "length (wv row) = length (pv row)"
      using map_raising_length by blast
    ultimately have "length (wv row) \<le> 1" by simp
    then show ?thesis by (cases "wv row") auto
  qed
  have column: "(row_value e row key = PNone \<longrightarrow> wv row = [])
                \<and> (row_value e row key \<noteq> PNone \<longrightarrow>
                     (\<exists>x. wv row = [x]
                        \<and> wrap_with_lazy_value e
                             (if sel_attributes s = ''*'' then row_value e row key
                              else get_attribute (row_value e row key) (sel_attributes s) PNone)
                             True ?u
                           = Inr x))"
    if "row \<in> set rows" and sole: "showable_selection models = [s]"
      and col: "\<not> sel_is_function s" and key: "find_table_name (sel_model s) = Inr key"
    for row s key
  proof -
    from that assms(4) have p: "project_row e rows [s] row [] = Inr (pv row)" by simp
    from that assms(5)
    have w: "map_raising (\<lambda>x. wrap_with_lazy_value e x True ?u) (pv row) = Inr (wv row)"
      by blast
    show ?thesis
    proof (cases "row_value e row key = PNone")
      case True
      with p col key have "pv row = []" by simp
      with w have "wv row = []" by simp
      with True show ?thesis by simp
    next
      case False
      let ?v = "if sel_attributes s = ''*'' then row_value e row key
                else get_attribute (row_value e row key) (sel_attributes s) PNone"
      from False p col key have "pv row = [?v]" by (auto split: if_splits)
      with w have "map_raising (\<lambda>x. wrap_with_lazy_value e x True ?u) [?v] = Inr (wv row)"
        by simp
      from map_raising_single [OF this]
      obtain x where "wv row = [x]" and "wrap_with_lazy_value e ?v True ?u = Inr x"
        by blast
      with False show ?thesis by blast
    qed
  qed
  have func: "\<exists>v x. sel_function s rows = Inr v \<and> wv row = [x]
                 \<and> wrap_with_lazy_value e v True ?u = Inr x"
    if "row \<in> set rows" and sole: "showable_selection models = [s]"
      and fn: "sel_is_function s"
    for row s
  proof -
    from that assms(4) have p: "project_row e rows [s] row [] = Inr (pv row)" by simp
    from that assms(5)
    have w: "map_raising (\<lambda>x. wrap_with_lazy_value e x True ?u) (pv row) = Inr (wv row)"
      by blast
    from p fn obtain v where v: "sel_function s rows = Inr v" and "pv row = [v]"
      by (auto split: sum.splits)
    with w have "map_raising (\<lambda>x. wrap_with_lazy_value e x True ?u) [v] = Inr (wv row)"
      by simp
    from map_raising_single [OF this]
    obtain x where "wv row = [x]" and "wrap_with_lazy_value e v True ?u = Inr x"
      by blast
    with v show ?thesis by blast
  qed
  have one: "construct_rows e models criterions hints session request_uuid order_by
               = Inr (concat (map wv rows))"
    if "length (showable_selection models) = 1"
    using final that by simp
  have other: "construct_rows e models criterions hints session request_uuid order_by
               = Inr (map (\<lambda>row. PList (wv row)) rows)"
    if "length (showable_selection models) \<noteq> 1"
    using final that by simp
  have short_all: "\<forall>row\<in>set rows. wv row = [] \<or> (\<exists>x. wv row = [x])"
    if "length (showable_selection models) = 1"
    using short that by blast
  have column_all: "\<forall>row\<in>set rows. \<forall>s key.
      showable_selection models = [s] \<and> \<not> sel_is_function s
      \<and> find_table_name (sel_model s) = Inr key \<longrightarrow>
      (row_value e row key = PNone \<longrightarrow> wv row = [])
      \<and> (row_value e row key \<noteq> PNone \<longrightarrow>
           (\<exists>x. wv row = [x]
              \<and> wrap_with_lazy_value e
                   (if sel_attributes s = ''*'' then row_value e row key
                    else get_attribute (row_value e row key) (sel_attributes s) PNone)
                   True ?u
                 = Inr x))"
    using column by blast
  have func_all: "\<forall>row\<in>set rows. \<forall>s.
      showable_selection models = [s] \<and> sel_is_function s \<longrightarrow>
      (\<exists>v x. sel_function s rows = Inr v \<and> wv row = [x]
         \<and> wrap_with_lazy_value e v True ?u = Inr x)"
    using func by blast
  show ?thesis
    unfolding Let_def row_value_def [symmetric]
    using one other short_all column_all func_all by (intro conjI impI) assumption+
qed

theorem construct_rows_flattening_witness:
  "construct_rows example_env [column service ''host''] PNone [] PNone PNone PNone
     = Inr [PStr ''host1'', PStr ''host2'', PStr ''host3'']
   \<and> construct_rows example_env [column service ''host'', column service ''id'']
       PNone [] PNone PNone PNone
     = Inr [PList [PStr ''host1'', PInt 1], PList [PStr ''host2'', PInt 2],
            PList [PStr ''host3'', PInt 3]]
   \<and> construct_rows outer_join_env [column service ''host'', hidden_column compute_node ''*'']
       PNone [] PNone PNone PNone
     = Inr [PStr ''host1'']"
proof -
  let ?one = "[column service ''host'']"
  let ?two = "[column service ''host'', column service ''id'']"
  let ?join = "[column service ''host'', hidden_column compute_node ''*'']"
  let ?joined = "[PKeyedTuple [service_object 1 ''host1'', compute_node_object 1 1]
                    [''services'', ''compute_nodes''],
                  PKeyedTuple [PNone, compute_node_object 2 7] [''services'', ''compute_nodes'']]"
  let ?pv1 = "\<lambda>row. [get_attribute row ''host'' PNone]"
  let ?pv2 = "\<lambda>row. [get_attribute row ''host'' PNone, get_attribute row ''id'' PNone]"
  let ?pv3 = "\<lambda>row. if get_attribute row ''services'' PNone = PNone then []
                     else [get_attribute (get_attribute row ''services'' PNone) ''host'' PNone]"
  have a1: "\<not> any_selectable_is_function ?one" and a2: "\<not> any_selectable_is_function ?two"
    and a3: "\<not> any_selectable_is_function ?join"
    by (simp_all add: example_defs)
  have b1: "build_rows example_env ?one PNone []
              (if PNone = PNone then uuid1 example_env else PNone) PNone = Inr three_services"
    by (simp add: example_defs)
  have b2: "build_rows example_env ?two PNone []
              (if PNone = PNone then uuid1 example_env else PNone) PNone = Inr three_services"
    by (simp add: example_defs)
  have b3: "build_rows outer_join_env ?join PNone []
              (if PNone = PNone then uuid1 outer_join_env else PNone) PNone = Inr ?joined"
    by (simp add: example_defs)
  have c: "get_decoder example_env (if PNone = PNone then uuid1 example_env else PNone) = Inr decode"
    by (simp add: example_defs)
  have c3: "get_decoder outer_join_env (if PNone = PNone then uuid1 outer_join_env else PNone)
              = Inr decode"
    by (simp add: example_defs)
  have p1: "\<forall>row\<in>set three_services.
              project_row example_env three_services (showable_selection ?one) row [] = Inr (?pv1 row)"
    by (simp add: example_defs)
  have p2: "\<forall>row\<in>set three_services.
              project_row example_env three_services (showable_selection ?two) row [] = Inr (?pv2 row)"
    by (simp add: example_defs)
  have p3: "\<forall>row\<in>set ?joined.
              project_row outer_join_env ?joined (showable_selection ?join) row [] = Inr (?pv3 row)"
    by (simp add: example_defs)
  have w1: "\<forall>row\<in>set three_services.
              map_raising (\<lambda>x. wrap_with_lazy_value example_env x True
                   (if PNone = PNone then uuid1 example_env else PNone)) (?pv1 row) = Inr (?pv1 row)"
    by (simp add: example_defs)
  have w2: "\<forall>row\<in>set three_services.
              map_raising (\<lambda>x. wrap_with_lazy_value example_env x True
                   (if PNone = PNone then uuid1 example_env else PNone)) (?pv2 row) = Inr (?pv2 row)"
    by (simp add: example_defs)
  have w3: "\<forall>row\<in>set ?joined.
              map_raising (\<lambda>x. wrap_with_lazy_value outer_join_env x True
                   (if PNone = PNone then uuid1 outer_join_env else PNone)) (?pv3 row) = Inr (?pv3 row)"
    by (simp add: example_defs)
  show ?thesis
    using construct_rows_flattening [OF a1 b1 c p1 w1, of PNone]
          construct_rows_flattening [OF a2 b2 c p2 w2, of PNone]
          construct_rows_flattening [OF a3 b3 c3 p3 w3, of PNone]
    by (simp add: example_defs)
qed



end
